theory Spec2Isabelle
  imports Main "HOL-Library.Word" "HOL-Library.Sublist"
begin

section \<open>Data model\<close>

text \<open>
  The provider is the Go package \<^verbatim>\<open>rfc2136\<close>, a client of RFC 2136 dynamic updates
  for the interfaces of \<^verbatim>\<open>libdns\<close>. The repository holds the provider's file twice:
  once with the three updating operations left as stubs, once complete. The model
  follows the complete file; \<^verbatim>\<open>GetRecords\<close> and \<^verbatim>\<open>normalizedNameserver\<close> are the same
  in both.
\<close>

text \<open>
  A Go \<^verbatim>\<open>string\<close> is a sequence of
  bytes, which is what an Isabelle \<^typ>\<open>string\<close> is. \<^verbatim>\<open>libdns.Record\<close> has the fields
  \<^verbatim>\<open>Name\<close>, \<^verbatim>\<open>Type\<close>, \<^verbatim>\<open>Value\<close> and \<^verbatim>\<open>TTL\<close>; the latter is a \<^verbatim>\<open>time.Duration\<close>, a
  signed 64-bit count of nanoseconds.
\<close>

record Record =
  Name :: string
  Type :: string
  Value :: string
  TTL :: "64 word"

text \<open>
  The wire side is the library \<^verbatim>\<open>github.com/miekg/dns\<close>. Its header
  \<^verbatim>\<open>dns.RR_Header\<close> has the fields \<^verbatim>\<open>Name\<close>, \<^verbatim>\<open>Rrtype\<close>, \<^verbatim>\<open>Class\<close>, \<^verbatim>\<open>Ttl\<close> (and
  \<^verbatim>\<open>Rdlength\<close>, which only packing sets); the field \<^verbatim>\<open>Name\<close> is written \<open>Name_h\<close>
  here since a record of the model already has a \<open>Name\<close>.
\<close>

record RR_Header =
  Name_h :: string
  Rrtype :: "16 word"
  Class :: "16 word"
  Ttl :: "32 word"

text \<open>
  \<^verbatim>\<open>dns.RR\<close> is an interface; the variants below are the structs of the library that
  this package builds or that the library's update helpers build for it. The \<^verbatim>\<open>nil\<close>
  interface value is \<open>None\<close> of \<open>RR option\<close>.
\<close>

datatype RR =
    dns_A RR_Header string
  | dns_AAAA RR_Header string
  | dns_CNAME RR_Header string
  | dns_MX RR_Header "16 word" string
  | dns_TXT RR_Header "string list"
  | dns_ANY RR_Header
  | dns_TSIG RR_Header string "16 word" "64 word" "16 word"

fun Header :: "RR \<Rightarrow> RR_Header" where
  "Header (dns_A h a) = h"
| "Header (dns_AAAA h a) = h"
| "Header (dns_CNAME h t) = h"
| "Header (dns_MX h p m) = h"
| "Header (dns_TXT h t) = h"
| "Header (dns_ANY h) = h"
| "Header (dns_TSIG h a f t i) = h"

fun setHeader :: "RR_Header \<Rightarrow> RR \<Rightarrow> RR" where
  "setHeader h' (dns_A h a) = dns_A h' a"
| "setHeader h' (dns_AAAA h a) = dns_AAAA h' a"
| "setHeader h' (dns_CNAME h t) = dns_CNAME h' t"
| "setHeader h' (dns_MX h p m) = dns_MX h' p m"
| "setHeader h' (dns_TXT h t) = dns_TXT h' t"
| "setHeader h' (dns_ANY h) = dns_ANY h'"
| "setHeader h' (dns_TSIG h a f t i) = dns_TSIG h' a f t i"

text \<open>
  \<^verbatim>\<open>dns.Question\<close>, \<^verbatim>\<open>dns.Msg\<close> (with the fields of its embedded header that the
  package or the update helpers touch) and \<^verbatim>\<open>dns.Client\<close>. The field \<^verbatim>\<open>Name\<close> of a
  question is \<open>Name_q\<close>. A slice that holds interface values may hold nil: the
  sections of a message that the helpers fill are lists of \<open>RR\<close>, since a helper
  reaches into every record before it stores it.
\<close>

record Question =
  Name_q :: string
  Qtype :: "16 word"
  Qclass :: "16 word"

record Msg =
  Id :: "16 word"
  Response :: bool
  Opcode :: int
  RecursionDesired :: bool
  Rcode :: int
  Compress :: bool
  Question :: "Question list"
  Answer :: "RR list"
  Ns :: "RR list"
  Extra :: "RR list"

record Client =
  SingleInflight :: bool
  TsigSecret :: "string \<rightharpoonup> string"

text \<open>\<^verbatim>\<open>new(dns.Msg)\<close> and \<^verbatim>\<open>new(dns.Client)\<close>: every field has Go's zero value.\<close>

definition new_Msg :: Msg where
  "new_Msg = \<lparr>Id = 0, Response = False, Opcode = 0, RecursionDesired = False, Rcode = 0,
              Compress = False, Question = [], Answer = [], Ns = [], Extra = []\<rparr>"

definition new_Client :: Client where
  "new_Client = \<lparr>SingleInflight = False, TsigSecret = Map.empty\<rparr>"

definition ClassINET :: "16 word" where "ClassINET = 1"
definition ClassNONE :: "16 word" where "ClassNONE = 254"
definition ClassANY :: "16 word" where "ClassANY = 255"
definition TypeSOA :: "16 word" where "TypeSOA = 6"
definition TypeTSIG :: "16 word" where "TypeTSIG = 250"
definition TypeANY :: "16 word" where "TypeANY = 255"
definition OpcodeUpdate :: int where "OpcodeUpdate = 5"
definition RcodeSuccess :: int where "RcodeSuccess = 0"

text \<open>
  The provider: its four configuration fields and its mutex, of which the model keeps
  whether it is held. One call is modelled at a time; what a second goroutine sees
  meanwhile is outside the model.
\<close>

record Provider =
  Nameserver :: string
  TSIGAlgorithm :: string
  TSIGKeyName :: string
  TSIGSecret :: string
  mutex :: bool

definition Lock :: "Provider \<Rightarrow> Provider" where
  "Lock p = p\<lparr>mutex := True\<rparr>"

definition Unlock :: "Provider \<Rightarrow> Provider" where
  "Unlock p = p\<lparr>mutex := False\<rparr>"

text \<open>
  A call either returns its results or ends in a run-time panic (the deferred
  \<^verbatim>\<open>Unlock\<close> runs in both cases).
\<close>

datatype 'a outcome = Returned 'a | Panicked

subsection \<open>Errors\<close>

text \<open>
  A Go \<^verbatim>\<open>error\<close> is a value with a method \<^verbatim>\<open>Error()\<close> that gives its text.
  \<open>New\<close> is an error made of its text alone (\<^verbatim>\<open>fmt.Errorf\<close> without \<^verbatim>\<open>%w\<close>),
  \<open>Wrap\<close> is what \<^verbatim>\<open>fmt.Errorf\<close> with a \<^verbatim>\<open>%w\<close> verb returns: the formatted text and the
  wrapped error. \<open>AddrError\<close> is \<^verbatim>\<open>net.AddrError{Err, Addr}\<close>.
\<close>

datatype error =
    New string
  | Wrap string error
  | AddrError string string

fun Error :: "error \<Rightarrow> string" where
  "Error (New s) = s"
| "Error (Wrap s e) = s"
| "Error (AddrError why addr) =
     (if addr \<noteq> [] then ''address '' @ addr @ '': '' @ why else why)"

text \<open>\<^verbatim>\<open>fmt.Errorf(text + "%w", err)\<close>: the text is the given one followed by the text of \<open>err\<close>.\<close>

definition Errorf_w :: "string \<Rightarrow> error \<Rightarrow> error" where
  "Errorf_w text err = Wrap (text @ Error err) err"

text \<open>\<^verbatim>\<open>fmt.Errorf(text + "%s", s)\<close>.\<close>

definition Errorf_s :: "string \<Rightarrow> string \<Rightarrow> error" where
  "Errorf_s text s = New (text @ s)"

subsection \<open>What the package takes from outside\<close>

text \<open>
  The tables and functions of \<^verbatim>\<open>miekg/dns\<close> whose contents the package does not fix, the
  network and the clock are parameters of the model, collected in one record; \<open>'w\<close> is
  the state of the world outside the process (the servers, the random source of
  message ids, the clock).
  \<^item> \<open>StringToType\<close>: the map \<^verbatim>\<open>dns.StringToType\<close>, with Go's zero value for a missing key;
  \<^item> \<open>TypeString\<close>: \<^verbatim>\<open>dns.Type(t).String()\<close>;
  \<^item> \<open>RcodeToString\<close>: the map \<^verbatim>\<open>dns.RcodeToString\<close>;
  \<^item> \<open>Fqdn\<close>: \<^verbatim>\<open>dns.Fqdn\<close>;
  \<^item> \<open>String\<close>: the method \<^verbatim>\<open>String()\<close> of a resource record;
  \<^item> \<open>dns_Id\<close>: \<^verbatim>\<open>dns.Id()\<close>, a random message id;
  \<^item> \<open>Now\<close>: \<^verbatim>\<open>time.Now().Unix()\<close>;
  \<^item> \<open>dns_Exchange\<close>: the function \<^verbatim>\<open>dns.Exchange(msg, address)\<close>, which returns a reply
    and an error;
  \<^item> \<open>Client_Exchange\<close>: the method \<^verbatim>\<open>c.Exchange(msg, address)\<close> of a client, which
    returns a reply, a round-trip time (that the package drops) and an error.
\<close>

record 'w Lib =
  StringToType :: "string \<Rightarrow> 16 word"
  TypeString :: "16 word \<Rightarrow> string"
  RcodeToString :: "int \<Rightarrow> string"
  Fqdn :: "string \<Rightarrow> string"
  String :: "RR \<Rightarrow> string"
  dns_Id :: "'w \<Rightarrow> 16 word \<times> 'w"
  Now :: "'w \<Rightarrow> 64 word"
  dns_Exchange :: "Msg \<Rightarrow> string \<Rightarrow> 'w \<Rightarrow> (Msg option \<times> error option) \<times> 'w"
  Client_Exchange :: "Client \<Rightarrow> Msg \<Rightarrow> string \<Rightarrow> 'w \<Rightarrow> (Msg option \<times> error option) \<times> 'w"

section \<open>The functions of Go's standard library that the package calls\<close>

text \<open>
  \<^verbatim>\<open>net.SplitHostPort\<close>, \<^verbatim>\<open>net.JoinHostPort\<close> and \<^verbatim>\<open>strings.Contains\<close>, after the
  standard library's source (package \<^verbatim>\<open>net\<close>, file \<^verbatim>\<open>ipsock.go\<close>). Indices are byte
  positions; \<open>- 1\<close> is "not found", as in Go.
\<close>

definition IndexByteString :: "string \<Rightarrow> char \<Rightarrow> int" where
  "IndexByteString s c =
     (if c \<in> set s then int (length (takeWhile (\<lambda>x. x \<noteq> c) s)) else - 1)"

text \<open>
  \<^verbatim>\<open>last(s, b)\<close>, the index of the last occurrence of \<open>b\<close> in \<open>s\<close>, is a loop that
  goes down from the end of the string: \<open>last_loop s b n\<close> has the positions below
  \<open>n\<close> left to look at.
\<close>

fun last_loop :: "string \<Rightarrow> char \<Rightarrow> nat \<Rightarrow> int" where
  "last_loop s b 0 = - 1"
| "last_loop s b (Suc i) = (if s ! i = b then int i else last_loop s b i)"

definition last_byte :: "string \<Rightarrow> char \<Rightarrow> int" where
  "last_byte s b = last_loop s b (length s)"

definition missingPort :: string where
  "missingPort = ''missing port in address''"

definition tooManyColons :: string where
  "tooManyColons = ''too many colons in address''"

definition addrErr :: "string \<Rightarrow> string \<Rightarrow> string \<times> string \<times> error option" where
  "addrErr addr why = ([], [], Some (AddrError why addr))"

text \<open>
  The result is \<^verbatim>\<open>(host, port, err)\<close>. The first part finds the host and the two
  positions \<open>j\<close>, \<open>k\<close> from which a stray bracket is looked for, or fails.
\<close>

definition SplitHostPort :: "string \<Rightarrow> string \<times> string \<times> error option" where
  "SplitHostPort hostport =
     (let i = last_byte hostport CHR '':''
      in if i < 0 then addrErr hostport missingPort
         else
           (case
              (if hostport ! 0 = CHR ''['' then
                 (let end' = IndexByteString hostport CHR '']''
                  in if end' < 0 then Inr (addrErr hostport ''missing ']' in address'')
                     else if end' + 1 = int (length hostport) then
                       Inr (addrErr hostport missingPort)
                     else if end' + 1 = i then
                       Inl (take (nat end' - 1) (drop 1 hostport), 1, nat end' + 1)
                     else if hostport ! nat (end' + 1) = CHR '':'' then
                       Inr (addrErr hostport tooManyColons)
                     else Inr (addrErr hostport missingPort))
               else
                 (let host = take (nat i) hostport
                  in if IndexByteString host CHR '':'' \<ge> 0 then
                       Inr (addrErr hostport tooManyColons)
                     else Inl (host, 0, 0)))
            of
              Inr failed \<Rightarrow> failed
            | Inl (host, j, k) \<Rightarrow>
                if IndexByteString (drop j hostport) CHR ''['' \<ge> 0 then
                  addrErr hostport ''unexpected '[' in address''
                else if IndexByteString (drop k hostport) CHR '']'' \<ge> 0 then
                  addrErr hostport ''unexpected ']' in address''
                else (host, drop (nat (i + 1)) hostport, None)))"

definition JoinHostPort :: "string \<Rightarrow> string \<Rightarrow> string" where
  "JoinHostPort host port =
     (if IndexByteString host CHR '':'' \<ge> 0 then ''['' @ host @ '']:'' @ port
      else host @ '':'' @ port)"

definition Contains :: "string \<Rightarrow> string \<Rightarrow> bool" where
  "Contains s substr = sublist substr s"

section \<open>The update helpers of the DNS library\<close>

text \<open>
  The methods of \<^verbatim>\<open>dns.Msg\<close> that the package calls, after the library's source
  (\<^verbatim>\<open>update.go\<close>, \<^verbatim>\<open>defaults.go\<close>, \<^verbatim>\<open>tsig.go\<close>). \<^verbatim>\<open>Insert\<close>, \<^verbatim>\<open>Remove\<close> and
  \<^verbatim>\<open>RemoveRRset\<close> range over the slice they are given and call \<^verbatim>\<open>r.Header()\<close> on each
  element; a method call on a nil interface value is a run-time panic, which is the
  result \<open>None\<close> here. \<^verbatim>\<open>Insert\<close> also panics on a message without a question.
\<close>

definition SetUpdate :: "'w Lib \<Rightarrow> Msg \<Rightarrow> string \<Rightarrow> 'w \<Rightarrow> Msg \<times> 'w" where
  "SetUpdate lib msg z w =
     (let (id, w) = dns_Id lib w
      in (msg\<lparr>Id := id, Response := False, Opcode := OpcodeUpdate, Compress := False,
              Question := [\<lparr>Name_q = z, Qtype = TypeSOA, Qclass = ClassINET\<rparr>]\<rparr>, w))"

fun Insert_loop :: "Msg \<Rightarrow> RR option list \<Rightarrow> Msg option" where
  "Insert_loop u [] = Some u"
| "Insert_loop u (None # rr) = None"
| "Insert_loop u (Some r # rr) =
     Insert_loop
       (u\<lparr>Ns := Ns u @ [setHeader ((Header r)\<lparr>Class := Qclass (hd (Question u))\<rparr>) r]\<rparr>) rr"

definition Insert :: "Msg \<Rightarrow> RR option list \<Rightarrow> Msg option" where
  "Insert u rr = (if length (Question u) = 0 then None else Insert_loop u rr)"

fun RemoveRRset :: "Msg \<Rightarrow> RR option list \<Rightarrow> Msg option" where
  "RemoveRRset u [] = Some u"
| "RemoveRRset u (None # rr) = None"
| "RemoveRRset u (Some r # rr) =
     RemoveRRset
       (u\<lparr>Ns := Ns u @ [dns_ANY \<lparr>Name_h = Name_h (Header r), Rrtype = Rrtype (Header r),
                                  Class = ClassANY, Ttl = 0\<rparr>]\<rparr>) rr"

fun Remove :: "Msg \<Rightarrow> RR option list \<Rightarrow> Msg option" where
  "Remove u [] = Some u"
| "Remove u (None # rr) = None"
| "Remove u (Some r # rr) =
     Remove (u\<lparr>Ns := Ns u @ [setHeader ((Header r)\<lparr>Class := ClassNONE, Ttl := 0\<rparr>) r]\<rparr>) rr"

text \<open>
  \<^verbatim>\<open>SetTsig(z, algo, fudge, timesigned)\<close> appends a TSIG record to the additional
  section: owner \<open>z\<close>, class ANY, the algorithm, the fudge, the time and the id of
  the message.
\<close>

definition SetTsig :: "Msg \<Rightarrow> string \<Rightarrow> string \<Rightarrow> 16 word \<Rightarrow> 64 word \<Rightarrow> Msg" where
  "SetTsig msg z algo fudge timesigned =
     msg\<lparr>Extra := Extra msg @
            [dns_TSIG \<lparr>Name_h = z, Rrtype = TypeTSIG, Class = ClassANY, Ttl = 0\<rparr>
               algo fudge timesigned (Id msg)]\<rparr>"

section \<open>The provider\<close>

subsection \<open>The nameserver's address\<close>

definition normalizedNameserver :: "Provider \<Rightarrow> string" where
  "normalizedNameserver p =
     (case SplitHostPort (Nameserver p) of
        (host, port, Some err) \<Rightarrow>
          if Contains (Error err) ''missing port'' then JoinHostPort (Nameserver p) ''53''
          else Nameserver p
      | (host, port, None) \<Rightarrow> Nameserver p)"

subsection \<open>The client and the signature\<close>

definition makeClient :: "'w Lib \<Rightarrow> Provider \<Rightarrow> Client" where
  "makeClient lib p =
     (let c = new_Client;
          c = c\<lparr>SingleInflight := True\<rparr>
      in if length (TSIGKeyName p) > 0 \<and> length (TSIGSecret p) > 0 then
           c\<lparr>TsigSecret := [Fqdn lib (TSIGKeyName p) \<mapsto> TSIGSecret p]\<rparr>
         else c)"

definition configureMessage :: "'w Lib \<Rightarrow> Provider \<Rightarrow> Msg \<Rightarrow> 'w \<Rightarrow> Msg" where
  "configureMessage lib p msg w =
     (if length (TSIGKeyName p) > 0 \<and> length (TSIGSecret p) > 0 then
        SetTsig msg (Fqdn lib (TSIGKeyName p)) (Fqdn lib (TSIGAlgorithm p)) 300 (Now lib w)
      else msg)"

subsection \<open>Translating a record to a resource record\<close>

text \<open>
  \<^verbatim>\<open>rrFromRecord\<close> returns the pair \<^verbatim>\<open>(dns.RR, error)\<close>. It declares
  \<^verbatim>\<open>var rr dns.RR\<close> (the nil interface) in the scope of the function body, and each
  clause of its \<^verbatim>\<open>switch\<close> starts with a short variable declaration
  \<^verbatim>\<open>rr := new(dns.A)\<close>. A clause of a Go \<^verbatim>\<open>switch\<close> is a block of its own, so \<^verbatim>\<open>:=\<close>
  declares a new variable there, which the clause fills and which goes out of scope at
  the end of the clause. The \<^verbatim>\<open>rr\<close> of \<^verbatim>\<open>return rr, nil\<close> is the one of the function
  body, never assigned. The variable of the clause is \<open>rr'\<close> below.

  \<^verbatim>\<open>net.IP(record.Value)\<close> is a conversion of the string to a byte slice, and
  \<^verbatim>\<open>uint32(record.TTL)\<close> keeps the low 32 bits of the 64-bit count.
\<close>

definition rrHeader :: "'w Lib \<Rightarrow> string \<Rightarrow> Record \<Rightarrow> RR_Header" where
  "rrHeader lib zone record =
     \<lparr>Name_h = zone,
      Rrtype = StringToType lib (Type record),
      Class = ClassINET,
      Ttl = ucast (TTL record)\<rparr>"

definition rrFromRecord :: "'w Lib \<Rightarrow> string \<Rightarrow> Record \<Rightarrow> RR option \<times> error option" where
  "rrFromRecord lib zone record =
     (let header = rrHeader lib zone record;
          rr = None
      in if Type record = ''A'' then
           (let rr' = dns_A header (Value record) in (rr, None))
         else if Type record = ''AAAA'' then
           (let rr' = dns_AAAA header (Value record) in (rr, None))
         else if Type record = ''CNAME'' then
           (let rr' = dns_CNAME header (Value record) in (rr, None))
         else if Type record = ''MX'' then
           (let rr' = dns_MX header 0 (Value record) in (rr, None))
         else if Type record = ''TXT'' then
           (let rr' = dns_TXT header [Value record] in (rr, None))
         else (None, Some (Errorf_s ''unsupported type '' (Type record))))"

subsection \<open>Listing the records of a zone\<close>

text \<open>
  The body of the loop of \<^verbatim>\<open>GetRecords\<close>: an answer of the reply becomes a
  \<^verbatim>\<open>libdns.Record\<close>. \<^verbatim>\<open>time.Duration(header.Ttl)\<close> widens the unsigned 32-bit count to
  64 bits.
\<close>

definition recordFromRR :: "'w Lib \<Rightarrow> RR \<Rightarrow> Record" where
  "recordFromRR lib record =
     (let header = Header record
      in \<lparr>Name = Name_h header,
          Type = TypeString lib (Rrtype header),
          Value = String lib record,
          TTL = ucast (Ttl header)\<rparr>)"

fun fetchLoop :: "'w Lib \<Rightarrow> RR list \<Rightarrow> Record list \<Rightarrow> Record list" where
  "fetchLoop lib [] fetchedRecords = fetchedRecords"
| "fetchLoop lib (record # answer) fetchedRecords =
     fetchLoop lib answer (fetchedRecords @ [recordFromRR lib record])"

text \<open>
  The operations take the provider and the world and return them with their result.
  The context argument of the four operations is not used by the code. A reply that
  is nil while the error is nil too would make \<^verbatim>\<open>in.Answer\<close> panic.
\<close>

definition GetRecords ::
  "'w Lib \<Rightarrow> string \<Rightarrow> Provider \<Rightarrow> 'w \<Rightarrow> (Record list \<times> error option) outcome \<times> Provider \<times> 'w"
where
  "GetRecords lib zone p w =
     (let p = Lock p;
          msg = new_Msg;
          (id, w) = dns_Id lib w;
          msg = msg\<lparr>Id := id\<rparr>;
          msg = msg\<lparr>RecursionDesired := True\<rparr>;
          msg = msg\<lparr>Question := [\<lparr>Name_q = zone, Qtype = TypeANY, Qclass = ClassINET\<rparr>]\<rparr>;
          ((in', err), w) = dns_Exchange lib msg (normalizedNameserver p) w
      in case err of
           Some e \<Rightarrow> (Returned ([], Some e), Unlock p, w)
         | None \<Rightarrow>
             (case in' of
                None \<Rightarrow> (Panicked, Unlock p, w)
              | Some reply \<Rightarrow>
                  (Returned (fetchLoop lib (Answer reply) [], None), Unlock p, w)))"

subsection \<open>Appending, deleting and setting records\<close>

text \<open>
  Each of the three operations runs one loop over the records; the loop's state is
  the list of the records done so far and the world. The three loops differ in the
  helper that fills the message and are written out one by one as in the source.
\<close>

fun appendLoop ::
  "'w Lib \<Rightarrow> Provider \<Rightarrow> Client \<Rightarrow> string \<Rightarrow> string \<Rightarrow> Record list \<Rightarrow> Record list \<Rightarrow> 'w
     \<Rightarrow> (Record list \<times> error option) outcome \<times> 'w"
where
  "appendLoop lib p c nameserver zone [] appendedRecords w =
     (Returned (appendedRecords, None), w)"
| "appendLoop lib p c nameserver zone (record # records) appendedRecords w =
     (case rrFromRecord lib zone record of
        (rr, Some err) \<Rightarrow>
          (Returned (appendedRecords, Some (Errorf_w ''failed to append record: '' err)), w)
      | (rr, None) \<Rightarrow>
          (let rrs = [rr];
               msg = new_Msg;
               (msg, w) = SetUpdate lib msg zone w
           in case Insert msg rrs of
                None \<Rightarrow> (Panicked, w)
              | Some msg \<Rightarrow>
                  (let msg = configureMessage lib p msg w;
                       ((reply, err), w) = Client_Exchange lib c msg nameserver w
                   in case err of
                        Some e \<Rightarrow>
                          (Returned (appendedRecords,
                             Some (Errorf_w ''failed to append record, '' e)), w)
                      | None \<Rightarrow>
                          if reply \<noteq> None \<and> Rcode (the reply) \<noteq> RcodeSuccess then
                            (Returned (appendedRecords,
                               Some (Errorf_s ''failed to append record, server replied ''
                                       (RcodeToString lib (Rcode (the reply))))), w)
                          else appendLoop lib p c nameserver zone records
                                 (appendedRecords @ [record]) w)))"

definition AppendRecords ::
  "'w Lib \<Rightarrow> string \<Rightarrow> Record list \<Rightarrow> Provider \<Rightarrow> 'w
     \<Rightarrow> (Record list \<times> error option) outcome \<times> Provider \<times> 'w"
where
  "AppendRecords lib zone records p w =
     (let p = Lock p;
          c = makeClient lib p;
          nameserver = normalizedNameserver p;
          (result, w) = appendLoop lib p c nameserver zone records [] w
      in (result, Unlock p, w))"

fun deleteLoop ::
  "'w Lib \<Rightarrow> Provider \<Rightarrow> Client \<Rightarrow> string \<Rightarrow> string \<Rightarrow> Record list \<Rightarrow> Record list \<Rightarrow> 'w
     \<Rightarrow> (Record list \<times> error option) outcome \<times> 'w"
where
  "deleteLoop lib p c nameserver zone [] deletedRecords w =
     (Returned (deletedRecords, None), w)"
| "deleteLoop lib p c nameserver zone (record # records) deletedRecords w =
     (case rrFromRecord lib zone record of
        (rr, Some err) \<Rightarrow>
          (Returned (deletedRecords, Some (Errorf_w ''failed to append record: '' err)), w)
      | (rr, None) \<Rightarrow>
          (let rrs = [rr];
               msg = new_Msg;
               (msg, w) = SetUpdate lib msg zone w
           in case Remove msg rrs of
                None \<Rightarrow> (Panicked, w)
              | Some msg \<Rightarrow>
                  (let msg = configureMessage lib p msg w;
                       ((reply, err), w) = Client_Exchange lib c msg nameserver w
                   in case err of
                        Some e \<Rightarrow>
                          (Returned (deletedRecords,
                             Some (Errorf_w ''failed to append record, '' e)), w)
                      | None \<Rightarrow>
                          if reply \<noteq> None \<and> Rcode (the reply) \<noteq> RcodeSuccess then
                            (Returned (deletedRecords,
                               Some (Errorf_s ''failed to append record, server replied ''
                                       (RcodeToString lib (Rcode (the reply))))), w)
                          else deleteLoop lib p c nameserver zone records
                                 (deletedRecords @ [record]) w)))"

definition DeleteRecords ::
  "'w Lib \<Rightarrow> string \<Rightarrow> Record list \<Rightarrow> Provider \<Rightarrow> 'w
     \<Rightarrow> (Record list \<times> error option) outcome \<times> Provider \<times> 'w"
where
  "DeleteRecords lib zone records p w =
     (let p = Lock p;
          c = makeClient lib p;
          nameserver = normalizedNameserver p;
          (result, w) = deleteLoop lib p c nameserver zone records [] w
      in (result, Unlock p, w))"

fun setLoop ::
  "'w Lib \<Rightarrow> Provider \<Rightarrow> Client \<Rightarrow> string \<Rightarrow> string \<Rightarrow> Record list \<Rightarrow> Record list \<Rightarrow> 'w
     \<Rightarrow> (Record list \<times> error option) outcome \<times> 'w"
where
  "setLoop lib p c nameserver zone [] setRecords w =
     (Returned (setRecords, None), w)"
| "setLoop lib p c nameserver zone (record # records) setRecords w =
     (case rrFromRecord lib zone record of
        (rr, Some err) \<Rightarrow>
          (Returned (setRecords, Some (Errorf_w ''failed to append record: '' err)), w)
      | (rr, None) \<Rightarrow>
          (let rrs = [rr];
               msg = new_Msg;
               (msg, w) = SetUpdate lib msg zone w
           in case RemoveRRset msg rrs of
                None \<Rightarrow> (Panicked, w)
              | Some msg \<Rightarrow>
                  (case Insert msg rrs of
                     None \<Rightarrow> (Panicked, w)
                   | Some msg \<Rightarrow>
                       (let msg = configureMessage lib p msg w;
                            ((reply, err), w) = Client_Exchange lib c msg nameserver w
                        in case err of
                             Some e \<Rightarrow>
                               (Returned (setRecords,
                                  Some (Errorf_w ''failed to append record, '' e)), w)
                           | None \<Rightarrow>
                               if reply \<noteq> None \<and> Rcode (the reply) \<noteq> RcodeSuccess then
                                 (Returned (setRecords,
                                    Some (Errorf_s ''failed to append record, server replied ''
                                            (RcodeToString lib (Rcode (the reply))))), w)
                               else setLoop lib p c nameserver zone records
                                      (setRecords @ [record]) w))))"

definition SetRecords ::
  "'w Lib \<Rightarrow> string \<Rightarrow> Record list \<Rightarrow> Provider \<Rightarrow> 'w
     \<Rightarrow> (Record list \<times> error option) outcome \<times> Provider \<times> 'w"
where
  "SetRecords lib zone records p w =
     (let p = Lock p;
          c = makeClient lib p;
          nameserver = normalizedNameserver p;
          (result, w) = setLoop lib p c nameserver zone records [] w
      in (result, Unlock p, w))"

subsection \<open>To the wire and back\<close>

text \<open>
  \<^verbatim>\<open>rrFromRecord\<close> followed by the mapping of \<^verbatim>\<open>GetRecords\<close>. There is a record at
  the end only if the translation gave a resource record and no error:
  \<^verbatim>\<open>record.Header()\<close> on the nil interface value panics.
\<close>

definition wireRoundTrip :: "'w Lib \<Rightarrow> string \<Rightarrow> Record \<Rightarrow> Record option" where
  "wireRoundTrip lib zone record =
     (case rrFromRecord lib zone record of
        (Some rr, None) \<Rightarrow> Some (recordFromRR lib rr)
      | (None, None) \<Rightarrow> None
      | (rr, Some err) \<Rightarrow> None)"

section \<open>An instance of the parameters\<close>

text \<open>
  To run the operations on concrete inputs: the type codes of the five supported
  mnemonics, a network that answers every message with an empty successful reply and
  whose state is the list of the messages sent so far with their destinations, a
  constant clock and constant message ids.
\<close>

definition sampleLib :: "(Msg \<times> string) list Lib" where
  "sampleLib =
     \<lparr>StringToType = (\<lambda>s. if s = ''A'' then 1 else if s = ''AAAA'' then 28
                          else if s = ''CNAME'' then 5 else if s = ''MX'' then 15
                          else if s = ''TXT'' then 16 else 0),
      TypeString = (\<lambda>t. if t = 1 then ''A'' else if t = 28 then ''AAAA''
                        else if t = 5 then ''CNAME'' else if t = 15 then ''MX''
                        else if t = 16 then ''TXT'' else ''TYPE''),
      RcodeToString = (\<lambda>r. if r = 0 then ''NOERROR'' else if r = 5 then ''REFUSED'' else []),
      Fqdn = (\<lambda>s. if s \<noteq> [] \<and> last s = CHR ''.'' then s else s @ ''.''),
      String = (\<lambda>rr. Name_h (Header rr)),
      dns_Id = (\<lambda>w. (0, w)),
      Now = (\<lambda>w. 0),
      dns_Exchange = (\<lambda>msg address w. ((Some new_Msg, None), w @ [(msg, address)])),
      Client_Exchange = (\<lambda>c msg address w. ((Some new_Msg, None), w @ [(msg, address)]))\<rparr>"

definition sampleProvider :: Provider where
  "sampleProvider =
     \<lparr>Nameserver = ''ns.example.org'', TSIGAlgorithm = ''hmac-sha256'',
      TSIGKeyName = ''libdns'', TSIGSecret = ''c2VjcmV0'', mutex = False\<rparr>"

text \<open>A record of the given type and value, with a TTL of 300 seconds (in nanoseconds).\<close>

definition sampleRecord :: "string \<Rightarrow> string \<Rightarrow> Record" where
  "sampleRecord type value =
     \<lparr>Name = ''test.example.org.'', Type = type, Value = value, TTL = 300000000000\<rparr>"

section \<open>Properties\<close>

subsection \<open>Translation\<close>

text \<open>
  For each of the five supported mnemonics the function returns the nil resource
  record together with the nil error: the record that the clause builds stays in the
  clause.
\<close>

lemma rrFromRecord_supported:
  "Type record \<in> {''A'', ''AAAA'', ''CNAME'', ''MX'', ''TXT''} \<Longrightarrow>
     rrFromRecord lib zone record = (None, None)"
  by (auto simp add: rrFromRecord_def Let_def)

text \<open>
  C2. For a record whose type mnemonic is none of A, AAAA, CNAME, MX, TXT,
  \<^verbatim>\<open>rrFromRecord\<close> returns no resource record (nil) and an error whose text is
  "unsupported type " followed by that mnemonic.
\<close>

theorem rrFromRecord_unsupported:
  assumes "Type record \<notin> {''A'', ''AAAA'', ''CNAME'', ''MX'', ''TXT''}"
  shows "rrFromRecord lib zone record =
           (None, Some (New (''unsupported type '' @ Type record)))
       \<and> (\<exists>err. snd (rrFromRecord lib zone record) = Some err
             \<and> Error err = ''unsupported type '' @ Type record)"
  using assms by (simp add: rrFromRecord_def Errorf_s_def Let_def)

theorem rrFromRecord_unsupported_witness:
  "Type (sampleRecord ''SRV'' ''0 5 5060 sip.example.org.'')
     \<notin> {''A'', ''AAAA'', ''CNAME'', ''MX'', ''TXT''}
   \<and> rrFromRecord sampleLib ''example.org.'' (sampleRecord ''SRV'' ''0 5 5060 sip.example.org.'')
       = (None, Some (New ''unsupported type SRV''))"
  using rrFromRecord_unsupported
    [of "sampleRecord ''SRV'' ''0 5 5060 sip.example.org.''" sampleLib "''example.org.''"]
  by (simp add: sampleRecord_def)

text \<open>
  C4. The claim: for a record of a supported type, the resource record that
  \<^verbatim>\<open>rrFromRecord\<close> produces has a header with the zone as owner name, class INET and
  the TTL cast to 32 bits. On an A record the function produces no resource record at
  all: it returns nil with a nil error, and the header it has built is dropped with
  the record of the clause.
\<close>

theorem rrFromRecord_A_returns_nil:
  "rrFromRecord sampleLib ''example.org.'' (sampleRecord ''A'' ''127.0.0.1'') = (None, None)"
  by (simp add: rrFromRecord_def sampleRecord_def Let_def)

text \<open>
  The round trip ends without a record for every zone and every record: a supported
  type is translated to the nil resource record, any other type to an error.
\<close>

lemma wireRoundTrip_None: "wireRoundTrip lib zone record = None"
proof (cases "Type record \<in> {''A'', ''AAAA'', ''CNAME'', ''MX'', ''TXT''}")
  case True
  then show ?thesis
    by (simp only: wireRoundTrip_def rrFromRecord_supported) simp
next
  case False
  then show ?thesis
    by (simp add: wireRoundTrip_def rrFromRecord_def Let_def)
qed

text \<open>
  The header that \<^verbatim>\<open>rrFromRecord\<close> builds for a TTL of 300 seconds and then drops:
  \<^verbatim>\<open>uint32(record.TTL)\<close> takes the low 32 bits of the count of nanoseconds.
\<close>

lemma rrHeader_sample:
  "rrHeader sampleLib ''example.org.'' (sampleRecord ''A'' ''127.0.0.1'')
     = \<lparr>Name_h = ''example.org.'', Rrtype = 1, Class = 1, Ttl = 3647256576\<rparr>"
  by (simp add: rrHeader_def sampleLib_def sampleRecord_def ClassINET_def)

text \<open>
  C1. The claim: for a record of type A, AAAA, CNAME or TXT, \<^verbatim>\<open>rrFromRecord\<close> followed
  by the mapping of \<^verbatim>\<open>GetRecords\<close> gives a record with the same name and the same TTL
  and an equivalent value. On the A record \<open>127.0.0.1\<close> the translation returns the
  nil resource record with the nil error, so the round trip ends without any record:
  neither the name nor the TTL comes back.
\<close>

theorem wireRoundTrip_A_record:
  "rrFromRecord sampleLib ''example.org.'' (sampleRecord ''A'' ''127.0.0.1'') = (None, None)
   \<and> wireRoundTrip sampleLib ''example.org.'' (sampleRecord ''A'' ''127.0.0.1'') = None
   \<and> \<not> (map_option Name
            (wireRoundTrip sampleLib ''example.org.'' (sampleRecord ''A'' ''127.0.0.1''))
          = Some (Name (sampleRecord ''A'' ''127.0.0.1''))
        \<and> map_option TTL
            (wireRoundTrip sampleLib ''example.org.'' (sampleRecord ''A'' ''127.0.0.1''))
          = Some (TTL (sampleRecord ''A'' ''127.0.0.1'')))"
  by (simp add: wireRoundTrip_def rrFromRecord_def sampleRecord_def Let_def)

subsection \<open>The nameserver's address\<close>

lemma last_loop_absent: "n \<le> length s \<Longrightarrow> b \<notin> set s \<Longrightarrow> last_loop s b n = - 1"
  by (induction n) auto

lemma last_byte_absent: "b \<notin> set s \<Longrightarrow> last_byte s b = - 1"
  by (simp add: last_byte_def last_loop_absent)

lemma last_loop_append:
  assumes "b \<notin> set port" and "n \<le> length port"
  shows "last_loop (host @ b # port) b (Suc (length host + n)) = int (length host)"
  using assms(2)
proof (induction n)
  case 0
  show ?case by simp
next
  case (Suc n)
  then have "port ! n \<in> set port" by simp
  with assms(1) have "port ! n \<noteq> b" by auto
  then have "(host @ b # port) ! Suc (length host + n) \<noteq> b"
    by (simp add: nth_append)
  with Suc show ?case by simp
qed

lemma last_byte_append:
  assumes "b \<notin> set port"
  shows "last_byte (host @ b # port) b = int (length host)"
  using last_loop_append [OF assms, of "length port" host]
  by (simp add: last_byte_def)

lemma IndexByteString_absent: "c \<notin> set s \<Longrightarrow> IndexByteString s c = - 1"
  by (simp add: IndexByteString_def)

text \<open>A host and a port without colons and brackets, joined by a colon, are split again.\<close>

lemma SplitHostPort_host_port:
  assumes "set host \<inter> {CHR '':'', CHR ''['', CHR '']''} = {}"
      and "set port \<inter> {CHR '':'', CHR ''['', CHR '']''} = {}"
  shows "SplitHostPort (host @ CHR '':'' # port) = (host, port, None)"
proof -
  have i: "last_byte (host @ CHR '':'' # port) CHR '':'' = int (length host)"
    using assms by (intro last_byte_append) auto
  have first: "(host @ CHR '':'' # port) ! 0 \<noteq> CHR ''[''"
    using assms by (cases host) auto
  show ?thesis
    using assms first
    by (simp add: SplitHostPort_def i Let_def IndexByteString_absent nat_add_distrib)
qed

text \<open>Such an address, which has its port, is returned as it is.\<close>

lemma normalizedNameserver_explicit_port:
  assumes "Nameserver p = host @ CHR '':'' # port"
      and "set host \<inter> {CHR '':'', CHR ''['', CHR '']''} = {}"
      and "set port \<inter> {CHR '':'', CHR ''['', CHR '']''} = {}"
  shows "normalizedNameserver p = Nameserver p"
  using SplitHostPort_host_port [OF assms(2,3)] assms(1)
  by (simp add: normalizedNameserver_def)

lemma Contains_missingPort: "Contains (Error (AddrError missingPort addr)) ''missing port''"
proof -
  have "sublist ''missing port'' (pre @ ''missing port'' @ '' in address'')" for pre :: string
    by (rule sublist_appendI)
  from this [of "''address '' @ addr @ '': ''"] this [of "[]"]
  show ?thesis by (simp add: Contains_def missingPort_def)
qed

text \<open>An address without any colon gets the port 53 appended.\<close>

lemma normalizedNameserver_no_colon:
  assumes "CHR '':'' \<notin> set (Nameserver p)"
  shows "normalizedNameserver p = Nameserver p @ '':53''"
  using assms Contains_missingPort [of "Nameserver p"]
  by (simp add: normalizedNameserver_def SplitHostPort_def last_byte_absent addrErr_def
      JoinHostPort_def IndexByteString_def Let_def del: Error.simps)

text \<open>
  C3. The claim: an address with a port is returned as it is, an address without a
  port gets \<open>:53\<close> appended, any other address is returned as it is. The bracketed
  IPv6 address \<open>[::1]\<close> has no port (\<^verbatim>\<open>SplitHostPort\<close> says so), and the result is not
  \<open>[::1]:53\<close>: \<^verbatim>\<open>JoinHostPort\<close> puts a second pair of brackets around a host with a
  colon.
\<close>

theorem normalizedNameserver_bracketed:
  "SplitHostPort ''[::1]'' = ([], [], Some (AddrError ''missing port in address'' ''[::1]''))
   \<and> normalizedNameserver (sampleProvider\<lparr>Nameserver := ''[::1]''\<rparr>) = ''[[::1]]:53''
   \<and> normalizedNameserver (sampleProvider\<lparr>Nameserver := ''[::1]''\<rparr>) \<noteq> ''[::1]'' @ '':53''"
  by code_simp

text \<open>
  The text of an address error holds the address, so an address that has too many
  colons and the words "missing port" in it is not returned as it is either.
\<close>

lemma normalizedNameserver_text_in_address:
  "SplitHostPort ''missing port:a:b''
     = ([], [], Some (AddrError ''too many colons in address'' ''missing port:a:b''))
   \<and> normalizedNameserver (sampleProvider\<lparr>Nameserver := ''missing port:a:b''\<rparr>)
     = ''[missing port:a:b]:53''"
  by code_simp

subsection \<open>The signature\<close>

text \<open>
  What the two helpers do on their own. \<^verbatim>\<open>configureMessage\<close> changes a message if and
  only if the key name and the secret are both non-empty. It then appends one TSIG
  record whose owner is \<^verbatim>\<open>dns.Fqdn\<close> of the key name, whose algorithm is \<^verbatim>\<open>dns.Fqdn\<close> of
  the algorithm name and whose fudge is 300, and \<^verbatim>\<open>makeClient\<close> gives the client the
  secret under the same key name. Otherwise the message is returned as it is and the
  client has no secret.
\<close>

lemma configureMessage_SetTsig:
  "(configureMessage lib p msg w \<noteq> msg \<longleftrightarrow> TSIGKeyName p \<noteq> [] \<and> TSIGSecret p \<noteq> [])
 \<and> (TSIGKeyName p \<noteq> [] \<and> TSIGSecret p \<noteq> [] \<longrightarrow>
       configureMessage lib p msg w =
         msg\<lparr>Extra := Extra msg @
               [dns_TSIG \<lparr>Name_h = Fqdn lib (TSIGKeyName p), Rrtype = TypeTSIG,
                           Class = ClassANY, Ttl = 0\<rparr>
                  (Fqdn lib (TSIGAlgorithm p)) 300 (Now lib w) (Id msg)]\<rparr>
       \<and> TsigSecret (makeClient lib p) = [Fqdn lib (TSIGKeyName p) \<mapsto> TSIGSecret p])
 \<and> (TSIGKeyName p = [] \<or> TSIGSecret p = [] \<longrightarrow>
       configureMessage lib p msg w = msg \<and> TsigSecret (makeClient lib p) = Map.empty)"
proof -
  have changed: "msg\<lparr>Extra := Extra msg @ [t]\<rparr> \<noteq> msg" for t
    by (cases msg) simp
  show ?thesis
    by (auto simp add: configureMessage_def SetTsig_def makeClient_def new_Client_def
        Let_def changed)
qed

subsection \<open>The three updating operations\<close>

text \<open>
  A record of a supported type stops each loop with a panic, before anything is sent:
  its translation is the nil resource record with the nil error, and the helper that
  should put it into the message reaches into it.
\<close>

lemma appendLoop_supported:
  "Type record \<in> {''A'', ''AAAA'', ''CNAME'', ''MX'', ''TXT''} \<Longrightarrow>
     appendLoop lib p c ns zone (record # records) done w = (Panicked, snd (dns_Id lib w))"
  by (simp add: rrFromRecord_supported SetUpdate_def Insert_def Let_def split: prod.splits)

lemma deleteLoop_supported:
  "Type record \<in> {''A'', ''AAAA'', ''CNAME'', ''MX'', ''TXT''} \<Longrightarrow>
     deleteLoop lib p c ns zone (record # records) done w = (Panicked, snd (dns_Id lib w))"
  by (simp add: rrFromRecord_supported SetUpdate_def Let_def split: prod.splits)

lemma setLoop_supported:
  "Type record \<in> {''A'', ''AAAA'', ''CNAME'', ''MX'', ''TXT''} \<Longrightarrow>
     setLoop lib p c ns zone (record # records) done w = (Panicked, snd (dns_Id lib w))"
  by (simp add: rrFromRecord_supported SetUpdate_def Let_def split: prod.splits)

text \<open>
  A record of any other type stops each loop with the error of the translation, under
  the same words in the three loops. So the exchange with the server is never reached.
\<close>

lemma appendLoop_unsupported:
  "Type record \<notin> {''A'', ''AAAA'', ''CNAME'', ''MX'', ''TXT''} \<Longrightarrow>
     appendLoop lib p c ns zone (record # records) done w =
       (Returned (done, Some (Wrap (''failed to append record: unsupported type '' @ Type record)
                               (New (''unsupported type '' @ Type record)))), w)"
  by (simp add: rrFromRecord_def Errorf_w_def Errorf_s_def Let_def)

lemma deleteLoop_unsupported:
  "Type record \<notin> {''A'', ''AAAA'', ''CNAME'', ''MX'', ''TXT''} \<Longrightarrow>
     deleteLoop lib p c ns zone (record # records) done w =
       (Returned (done, Some (Wrap (''failed to append record: unsupported type '' @ Type record)
                               (New (''unsupported type '' @ Type record)))), w)"
  by (simp add: rrFromRecord_def Errorf_w_def Errorf_s_def Let_def)

lemma setLoop_unsupported:
  "Type record \<notin> {''A'', ''AAAA'', ''CNAME'', ''MX'', ''TXT''} \<Longrightarrow>
     setLoop lib p c ns zone (record # records) done w =
       (Returned (done, Some (Wrap (''failed to append record: unsupported type '' @ Type record)
                               (New (''unsupported type '' @ Type record)))), w)"
  by (simp add: rrFromRecord_def Errorf_w_def Errorf_s_def Let_def)

text \<open>
  C6. The claim: each operation goes through the records in order and returns the
  records applied before the first failure, with the error. On a list that holds one
  A record, each of the three operations panics: nothing is applied, nothing is
  sent (the network's list of messages stays empty) and nothing is returned.
\<close>

theorem operations_panic_on_A_record:
  "AppendRecords sampleLib ''example.org.'' [sampleRecord ''A'' ''127.0.0.1''] sampleProvider []
     = (Panicked, sampleProvider, [])
   \<and> DeleteRecords sampleLib ''example.org.'' [sampleRecord ''A'' ''127.0.0.1''] sampleProvider []
     = (Panicked, sampleProvider, [])
   \<and> SetRecords sampleLib ''example.org.'' [sampleRecord ''A'' ''127.0.0.1''] sampleProvider []
     = (Panicked, sampleProvider, [])"
proof -
  have supported:
    "Type (sampleRecord ''A'' ''127.0.0.1'') \<in> {''A'', ''AAAA'', ''CNAME'', ''MX'', ''TXT''}"
    by (simp add: sampleRecord_def)
  have id: "snd (dns_Id sampleLib []) = []"
    by (simp add: sampleLib_def)
  show ?thesis
    by (simp add: AppendRecords_def DeleteRecords_def SetRecords_def
        appendLoop_supported [OF supported] deleteLoop_supported [OF supported]
        setLoop_supported [OF supported] id Lock_def Unlock_def Let_def sampleProvider_def
        del: appendLoop.simps deleteLoop.simps setLoop.simps)
qed

text \<open>
  C7. The claim: for each record \<^verbatim>\<open>SetRecords\<close> builds one message that first removes
  the RRset of the record's name and type and then inserts the new resource record.
  On the TXT record \<open>v1\<close> the resource record handed to \<^verbatim>\<open>RemoveRRset\<close> is nil, no
  message comes out of the helper, and \<^verbatim>\<open>SetRecords\<close> panics without sending anything.
\<close>

theorem SetRecords_builds_no_message:
  "rrFromRecord sampleLib ''example.org.'' (sampleRecord ''TXT'' ''v1'') = (None, None)
   \<and> RemoveRRset (fst (SetUpdate sampleLib new_Msg ''example.org.'' [])) [None] = None
   \<and> SetRecords sampleLib ''example.org.'' [sampleRecord ''TXT'' ''v1''] sampleProvider []
       = (Panicked, sampleProvider, [])"
proof -
  have supported:
    "Type (sampleRecord ''TXT'' ''v1'') \<in> {''A'', ''AAAA'', ''CNAME'', ''MX'', ''TXT''}"
    by (simp add: sampleRecord_def)
  have id: "snd (dns_Id sampleLib []) = []"
    by (simp add: sampleLib_def)
  show ?thesis
    by (simp add: SetRecords_def setLoop_supported [OF supported]
        rrFromRecord_supported [OF supported] id Lock_def Unlock_def Let_def sampleProvider_def
        del: setLoop.simps)
qed

text \<open>
  C8. The claim: the errors of \<^verbatim>\<open>DeleteRecords\<close> mention deleting and those of
  \<^verbatim>\<open>SetRecords\<close> mention setting. On a record of the unsupported type SRV both return
  the text "failed to append record: unsupported type SRV", as \<^verbatim>\<open>AppendRecords\<close> does.
\<close>

theorem delete_and_set_errors_say_append:
  "DeleteRecords sampleLib ''example.org.'' [sampleRecord ''SRV'' ''0 5 5060 sip.example.org.'']
       sampleProvider []
     = (Returned ([], Some (Wrap ''failed to append record: unsupported type SRV''
                             (New ''unsupported type SRV''))), sampleProvider, [])
   \<and> SetRecords sampleLib ''example.org.'' [sampleRecord ''SRV'' ''0 5 5060 sip.example.org.'']
       sampleProvider []
     = (Returned ([], Some (Wrap ''failed to append record: unsupported type SRV''
                             (New ''unsupported type SRV''))), sampleProvider, [])
   \<and> AppendRecords sampleLib ''example.org.'' [sampleRecord ''SRV'' ''0 5 5060 sip.example.org.'']
       sampleProvider []
     = (Returned ([], Some (Wrap ''failed to append record: unsupported type SRV''
                             (New ''unsupported type SRV''))), sampleProvider, [])
   \<and> \<not> Contains (Error (Wrap ''failed to append record: unsupported type SRV''
                            (New ''unsupported type SRV''))) ''delet''
   \<and> \<not> Contains (Error (Wrap ''failed to append record: unsupported type SRV''
                            (New ''unsupported type SRV''))) ''set''"
proof -
  have unsupported:
    "Type (sampleRecord ''SRV'' ''0 5 5060 sip.example.org.'')
       \<notin> {''A'', ''AAAA'', ''CNAME'', ''MX'', ''TXT''}"
    "Type (sampleRecord ''SRV'' ''0 5 5060 sip.example.org.'') = ''SRV''"
    by (simp_all add: sampleRecord_def)
  have texts:
    "\<not> Contains ''failed to append record: unsupported type SRV'' ''delet''"
    "\<not> Contains ''failed to append record: unsupported type SRV'' ''set''"
    by code_simp+
  show ?thesis
    by (simp add: DeleteRecords_def SetRecords_def AppendRecords_def
        appendLoop_unsupported [OF unsupported(1)] deleteLoop_unsupported [OF unsupported(1)]
        setLoop_unsupported [OF unsupported(1)] unsupported(2) texts
        Lock_def Unlock_def Let_def sampleProvider_def
        del: appendLoop.simps deleteLoop.simps setLoop.simps)
qed

text \<open>
  C9. On the empty list of records each of the three operations returns the empty
  list and no error, and leaves the world as it was: nothing is sent.
\<close>

theorem operations_on_no_records:
  "AppendRecords lib zone [] p w = (Returned ([], None), p\<lparr>mutex := False\<rparr>, w)
 \<and> DeleteRecords lib zone [] p w = (Returned ([], None), p\<lparr>mutex := False\<rparr>, w)
 \<and> SetRecords lib zone [] p w = (Returned ([], None), p\<lparr>mutex := False\<rparr>, w)"
  by (simp add: AppendRecords_def DeleteRecords_def SetRecords_def Lock_def Unlock_def Let_def)

theorem operations_on_no_records_witness:
  "AppendRecords sampleLib ''example.org.'' [] sampleProvider []
     = (Returned ([], None), sampleProvider, [])
 \<and> DeleteRecords sampleLib ''example.org.'' [] sampleProvider []
     = (Returned ([], None), sampleProvider, [])
 \<and> SetRecords sampleLib ''example.org.'' [] sampleProvider []
     = (Returned ([], None), sampleProvider, [])"
  using operations_on_no_records [of sampleLib "''example.org.''" sampleProvider "[]"]
  by (simp add: sampleProvider_def)

subsection \<open>Which messages go out signed\<close>

text \<open>
  \<^verbatim>\<open>GetRecords\<close> never looks at the TSIG fields of the provider: it does not call
  \<^verbatim>\<open>configureMessage\<close>, and it sends its query with \<^verbatim>\<open>dns.Exchange\<close>, not with the
  client of \<^verbatim>\<open>makeClient\<close>. Its result and what it does to the world are the same for
  every key name, secret and algorithm.
\<close>

lemma normalizedNameserver_cong:
  "Nameserver q = Nameserver p \<Longrightarrow> normalizedNameserver q = normalizedNameserver p"
  by (simp add: normalizedNameserver_def split: prod.splits option.splits)

lemma GetRecords_ignores_tsig:
  "fst (GetRecords lib zone
          (p\<lparr>TSIGAlgorithm := algorithm, TSIGKeyName := key, TSIGSecret := secret\<rparr>) w)
     = fst (GetRecords lib zone p w)
   \<and> snd (snd (GetRecords lib zone
          (p\<lparr>TSIGAlgorithm := algorithm, TSIGKeyName := key, TSIGSecret := secret\<rparr>) w))
     = snd (snd (GetRecords lib zone p w))"
proof -
  have "normalizedNameserver
          (Lock (p\<lparr>TSIGAlgorithm := algorithm, TSIGKeyName := key, TSIGSecret := secret\<rparr>))
        = normalizedNameserver (Lock p)"
    by (rule normalizedNameserver_cong) (simp add: Lock_def)
  then show ?thesis
    by (simp add: GetRecords_def Let_def split: prod.splits option.splits)
qed

text \<open>
  C5. The claim: the TSIG record is attached to an outgoing message if and only if the
  key name and the secret are both non-empty. With both set, \<^verbatim>\<open>GetRecords\<close> sends its
  query without any TSIG record (its additional section is empty), while the three
  updating operations have the call of \<^verbatim>\<open>configureMessage\<close> that \<^verbatim>\<open>GetRecords\<close> lacks.
  They do not send a signed message either: on a record of a supported type they
  panic before that call, and nothing is sent.
\<close>

theorem GetRecords_query_is_unsigned:
  "TSIGKeyName sampleProvider \<noteq> [] \<and> TSIGSecret sampleProvider \<noteq> []
   \<and> snd (snd (GetRecords sampleLib ''example.org.'' sampleProvider []))
       = [(\<lparr>Id = 0, Response = False, Opcode = 0, RecursionDesired = True, Rcode = 0,
            Compress = False,
            Question = [\<lparr>Name_q = ''example.org.'', Qtype = 255, Qclass = 1\<rparr>],
            Answer = [], Ns = [], Extra = []\<rparr>, ''ns.example.org:53'')]
   \<and> snd (snd (AppendRecords sampleLib ''example.org.'' [sampleRecord ''TXT'' ''v1'']
                  sampleProvider [])) = []"
proof -
  have address: "normalizedNameserver (Lock sampleProvider) = ''ns.example.org:53''"
    using normalizedNameserver_no_colon [of "Lock sampleProvider"]
    by (simp add: Lock_def sampleProvider_def)
  have query:
    "snd (snd (GetRecords sampleLib ''example.org.'' sampleProvider []))
       = [(\<lparr>Id = 0, Response = False, Opcode = 0, RecursionDesired = True, Rcode = 0,
            Compress = False,
            Question = [\<lparr>Name_q = ''example.org.'', Qtype = 255, Qclass = 1\<rparr>],
            Answer = [], Ns = [], Extra = []\<rparr>, ''ns.example.org:53'')]"
    by (simp add: GetRecords_def address sampleLib_def new_Msg_def TypeANY_def ClassINET_def
        Let_def)
  have supported:
    "Type (sampleRecord ''TXT'' ''v1'') \<in> {''A'', ''AAAA'', ''CNAME'', ''MX'', ''TXT''}"
    by (simp add: sampleRecord_def)
  have id: "snd (dns_Id sampleLib []) = []"
    by (simp add: sampleLib_def)
  have update:
    "snd (snd (AppendRecords sampleLib ''example.org.'' [sampleRecord ''TXT'' ''v1'']
                 sampleProvider [])) = []"
    by (simp add: AppendRecords_def appendLoop_supported [OF supported] id Let_def
        del: appendLoop.simps)
  show ?thesis
    using query update by (simp add: sampleProvider_def)
qed

subsection \<open>The configuration\<close>

text \<open>
  C10. After each of the four operations, whatever its outcome, the provider has the
  nameserver, the TSIG algorithm, the TSIG key name and the TSIG secret that it had
  before.
\<close>

theorem operations_keep_configuration:
  "(let config = (\<lambda>q. (Nameserver q, TSIGAlgorithm q, TSIGKeyName q, TSIGSecret q))
    in config (fst (snd (GetRecords lib zone p w))) = config p
     \<and> config (fst (snd (AppendRecords lib zone records p w))) = config p
     \<and> config (fst (snd (DeleteRecords lib zone records p w))) = config p
     \<and> config (fst (snd (SetRecords lib zone records p w))) = config p)"
  by (simp add: GetRecords_def AppendRecords_def DeleteRecords_def SetRecords_def
      Lock_def Unlock_def Let_def split: prod.splits option.splits)

theorem operations_keep_configuration_witness:
  "Nameserver (fst (snd (GetRecords sampleLib ''example.org.'' sampleProvider [])))
     = ''ns.example.org''
   \<and> TSIGSecret (fst (snd (AppendRecords sampleLib ''example.org.''
        [sampleRecord ''A'' ''127.0.0.1''] sampleProvider []))) = ''c2VjcmV0''
   \<and> TSIGKeyName (fst (snd (DeleteRecords sampleLib ''example.org.''
        [sampleRecord ''SRV'' []] sampleProvider []))) = ''libdns''
   \<and> TSIGAlgorithm (fst (snd (SetRecords sampleLib ''example.org.''
        [sampleRecord ''TXT'' ''v1''] sampleProvider []))) = ''hmac-sha256''"
  using operations_keep_configuration [of sampleLib "''example.org.''" sampleProvider "[]"
      "[sampleRecord ''A'' ''127.0.0.1'']"]
    operations_keep_configuration [of sampleLib "''example.org.''" sampleProvider "[]"
      "[sampleRecord ''SRV'' []]"]
    operations_keep_configuration [of sampleLib "''example.org.''" sampleProvider "[]"
      "[sampleRecord ''TXT'' ''v1'']"]
  by (simp add: sampleProvider_def Let_def)

end
